theory Spec2Isabelle
  imports Complex_Main
begin

section \<open>Replay page: data model\<close>

text \<open>
  The replay page keeps its data in a few TypeScript interfaces. JavaScript numbers are
  modelled as reals (finite values, exact arithmetic); the frame index, which the page
  only ever sets to integers, is an \<open>int\<close>. Fields named \<open>x\<close>, \<open>y\<close>, \<open>t\<close> and \<open>lap\<close>
  in the source carry a suffix here.
\<close>

record DriverPosition =
  x_pos :: real
  y_pos :: real
  dist :: real
  lap_pos :: real
  rel_dist :: real
  tyre :: real
  position :: real
  speed :: real
  gear :: real
  drs :: real
  throttle :: real
  brake :: real

record Frame =
  t_frame :: real
  lap :: int
  drivers :: "(string \<times> DriverPosition) list"

record TeamRadioClip =
  t_clip :: real
  driver :: string
  driverNumber :: int
  url :: string

record LapEntry =
  time :: "real option"
  s1 :: "real option"
  s2 :: "real option"
  s3 :: "real option"
  is_pb :: bool
  compound :: string

record LapTable =
  grid_pos :: int
  laps :: "(int \<times> LapEntry) list"

record RaceData =
  frames :: "Frame list"
  frameRate :: real
  teamRadio :: "TeamRadioClip list option"
  lapTiming :: "(string \<rightharpoonup> LapTable) option"

text \<open>\<open>xs[i]\<close> in JavaScript: \<open>undefined\<close> outside the array, never an exception.\<close>

definition at_index :: "'a list \<Rightarrow> int \<Rightarrow> 'a option" where
  "at_index xs i = (if 0 \<le> i \<and> i < int (length xs) then Some (xs ! nat i) else None)"

section \<open>Playback clock\<close>

record playback =
  frameIndex :: int
  isPlaying :: bool
  playbackSpeed :: real
  interpolationProgress :: real
  lastTimeRef :: real

definition initial_playback :: playback where
  "initial_playback =
     \<lparr>frameIndex = 0, isPlaying = False, playbackSpeed = 1,
      interpolationProgress = 0, lastTimeRef = 0\<rparr>"

datatype key = Space | ArrowRight | ArrowLeft | ArrowUp | ArrowDown | KeyR | OtherKey

text \<open>
  \<open>handleKeyDown\<close>. The handler is installed before the data has arrived, hence the
  optional dataset; \<open>(raceData?.frames.length || 1) - 1\<close> is \<open>0\<close> for a missing dataset
  and for an empty frame list.
\<close>

definition lastIndexOr0 :: "RaceData option \<Rightarrow> int" where
  "lastIndexOr0 rd =
     (case rd of None \<Rightarrow> 1
      | Some d \<Rightarrow> (if length (frames d) = 0 then 1 else int (length (frames d)))) - 1"

fun handleKeyDown :: "RaceData option \<Rightarrow> key \<Rightarrow> playback \<Rightarrow> playback" where
  "handleKeyDown rd Space st = st\<lparr>isPlaying := \<not> isPlaying st\<rparr>"
| "handleKeyDown rd ArrowRight st =
     st\<lparr>frameIndex := min (frameIndex st + 10) (lastIndexOr0 rd)\<rparr>"
| "handleKeyDown rd ArrowLeft st = st\<lparr>frameIndex := max (frameIndex st - 10) 0\<rparr>"
| "handleKeyDown rd ArrowUp st = st\<lparr>playbackSpeed := min (playbackSpeed st * 2) 8\<rparr>"
| "handleKeyDown rd ArrowDown st = st\<lparr>playbackSpeed := max (playbackSpeed st / 2) (1/2)\<rparr>"
| "handleKeyDown rd KeyR st = st\<lparr>frameIndex := 0, isPlaying := False\<rparr>"
| "handleKeyDown rd OtherKey st = st"

text \<open>
  The progress bar's \<open>onClick\<close>:
  \<open>percent = (clientX - rect.left) / rect.width\<close>, then
  \<open>setFrameIndex(Math.floor(percent * (frames.length - 1)))\<close>.
  With \<open>rect.width = 0\<close> JavaScript yields an infinity or NaN, which is no frame index
  of this model: the result is \<open>None\<close> there.
\<close>

definition progressBarTarget :: "real \<Rightarrow> real \<Rightarrow> real \<Rightarrow> nat \<Rightarrow> int option" where
  "progressBarTarget clientX rect_left rect_width n =
     (if rect_width = 0 then None
      else Some \<lfloor>(clientX - rect_left) / rect_width * (real_of_int (int n - 1))\<rfloor>)"

text \<open>The control buttons under the progress bar, in the order of the source.\<close>

datatype button = Restart | Rewind | PlayPause | FastForward | SpeedCycle

fun handleButton :: "RaceData \<Rightarrow> button \<Rightarrow> playback \<Rightarrow> playback" where
  "handleButton rd Restart st = st\<lparr>frameIndex := 0\<rparr>"
| "handleButton rd Rewind st = st\<lparr>frameIndex := max (frameIndex st - 50) 0\<rparr>"
| "handleButton rd PlayPause st = st\<lparr>isPlaying := \<not> isPlaying st\<rparr>"
| "handleButton rd FastForward st =
     st\<lparr>frameIndex := min (frameIndex st + 50) (int (length (frames rd)) - 1)\<rparr>"
| "handleButton rd SpeedCycle st =
     st\<lparr>playbackSpeed := (if playbackSpeed st = 8 then 1/2 else playbackSpeed st * 2)\<rparr>"

text \<open>
  \<open>animate(time)\<close>, one call of the animation loop. The loop only runs while
  \<open>isPlaying\<close>. \<open>frameInterval = 1000 / (frameRate * playbackSpeed)\<close> is infinite in
  JavaScript when the product is zero: then the progress is \<open>0\<close> and the frame never
  advances, which is written out here since HOL's \<open>x / 0\<close> is \<open>0\<close>.
\<close>

definition animate :: "RaceData \<Rightarrow> real \<Rightarrow> playback \<Rightarrow> playback" where
  "animate rd time_now st =
     (if \<not> isPlaying st then st
      else
        let last = (if lastTimeRef st = 0 then time_now else lastTimeRef st);
            delta = time_now - last;
            st1 = st\<lparr>lastTimeRef := last\<rparr>
        in if frameRate rd * playbackSpeed st = 0
           then st1\<lparr>interpolationProgress := 0\<rparr>
           else
             let frameInterval = 1000 / (frameRate rd * playbackSpeed st);
                 progress = min (delta / frameInterval) 1
             in if delta \<ge> frameInterval
                then (if frameIndex st \<ge> int (length (frames rd)) - 1
                      then st1\<lparr>isPlaying := False, interpolationProgress := 0,
                               lastTimeRef := time_now\<rparr>
                      else st1\<lparr>frameIndex := frameIndex st + 1, interpolationProgress := 0,
                               lastTimeRef := time_now\<rparr>)
                else st1\<lparr>interpolationProgress := progress\<rparr>)"

text \<open>Everything that can happen to the playback clock of a loaded replay.\<close>

datatype event =
    Key key
  | Button button
  | ProgressBarClick real real real
  | AnimationFrame real

fun handle :: "RaceData \<Rightarrow> event \<Rightarrow> playback \<Rightarrow> playback option" where
  "handle rd (Key k) st = Some (handleKeyDown (Some rd) k st)"
| "handle rd (Button b) st = Some (handleButton rd b st)"
| "handle rd (ProgressBarClick clientX rect_left rect_width) st =
     (case progressBarTarget clientX rect_left rect_width (length (frames rd)) of
        None \<Rightarrow> None
      | Some i \<Rightarrow> Some (st\<lparr>frameIndex := i\<rparr>))"
| "handle rd (AnimationFrame time_now) st = Some (animate rd time_now st)"

fun run :: "RaceData \<Rightarrow> event list \<Rightarrow> playback \<Rightarrow> playback option" where
  "run rd [] st = Some st"
| "run rd (e # es) st = (case handle rd e st of None \<Rightarrow> None | Some st' \<Rightarrow> run rd es st')"

text \<open>
  Predicates used to state the clock's properties: the frame index addresses a frame of
  the dataset; a click lies on the progress bar (its \<open>clientX\<close> is within the bar's
  rectangle, which has a positive width); the animation callback at \<open>time_now\<close> finds a
  whole frame interval elapsed.
\<close>

definition index_ok :: "RaceData \<Rightarrow> playback \<Rightarrow> bool" where
  "index_ok rd st = (0 \<le> frameIndex st \<and> frameIndex st \<le> int (length (frames rd)) - 1)"

fun pointer_on_bar :: "event \<Rightarrow> bool" where
  "pointer_on_bar (ProgressBarClick clientX rect_left rect_width) =
     (0 < rect_width \<and> rect_left \<le> clientX \<and> clientX \<le> rect_left + rect_width)"
| "pointer_on_bar e = True"

definition tick_due :: "RaceData \<Rightarrow> real \<Rightarrow> playback \<Rightarrow> bool" where
  "tick_due rd time_now st =
     (isPlaying st \<and> frameRate rd * playbackSpeed st \<noteq> 0 \<and>
      time_now - (if lastTimeRef st = 0 then time_now else lastTimeRef st)
        \<ge> 1000 / (frameRate rd * playbackSpeed st))"

section \<open>DRS indicator\<close>

text \<open>
  Both the driver info panel and the timing board render \<open>drs >= 10 ? 'ON' : 'OFF'\<close>.
  The panel is rendered only for \<open>selectedDriver && currentFrame?.drivers[selectedDriver]\<close>;
  the empty string is falsy.
\<close>

datatype drs_label = ON | OFF

definition drsLabel :: "real \<Rightarrow> drs_label" where
  "drsLabel d = (if d \<ge> 10 then ON else OFF)"

definition driverInfoDrs :: "Frame option \<Rightarrow> string option \<Rightarrow> drs_label option" where
  "driverInfoDrs currentFrame selectedDriver =
     (case selectedDriver of None \<Rightarrow> None
      | Some code \<Rightarrow>
          if code = [] then None else
          (case currentFrame of None \<Rightarrow> None
           | Some fr \<Rightarrow>
               (case map_of (drivers fr) code of None \<Rightarrow> None
                | Some pos \<Rightarrow> Some (drsLabel (drs pos)))))"

definition timingBoardDrs :: "DriverPosition \<Rightarrow> drs_label" where
  "timingBoardDrs pos = drsLabel (drs pos)"

section \<open>A small dataset\<close>

text \<open>Three frames and two drivers; HAM has no sample in the middle frame.\<close>

definition sample :: "real \<Rightarrow> real \<Rightarrow> real \<Rightarrow> real \<Rightarrow> DriverPosition" where
  "sample px py rank d =
     \<lparr>x_pos = px, y_pos = py, dist = 0, lap_pos = 1, rel_dist = 0, tyre = 2,
      position = rank, speed = 280, gear = 7, drs = d, throttle = 100, brake = 0\<rparr>"

definition example_frames :: "Frame list" where
  "example_frames =
     [\<lparr>t_frame = 99, lap = 2, drivers = [(''VER'', sample 0 0 1 12), (''HAM'', sample 4 2 2 9)]\<rparr>,
      \<lparr>t_frame = 101, lap = 2, drivers = [(''VER'', sample 10 20 1 10)]\<rparr>,
      \<lparr>t_frame = 104, lap = 2, drivers = [(''VER'', sample 30 20 1 0), (''HAM'', sample 8 2 2 9)]\<rparr>]"

definition example_race :: RaceData where
  "example_race =
     \<lparr>frames = example_frames, frameRate = 10, teamRadio = None, lapTiming = None\<rparr>"

text \<open>
  The operations that change the playback speed, and the speeds the page can reach from
  its initial speed \<open>1\<close>.
\<close>

definition speed_events :: "event set" where
  "speed_events = {Key ArrowUp, Key ArrowDown, Button SpeedCycle}"

definition cycle_speeds :: "real set" where
  "cycle_speeds = {1/2, 1, 2, 4, 8}"

section \<open>Drawing the drivers between two frames\<close>

text \<open>
  The driver loop of \<open>drawTrack\<close>, in track coordinates (the projection to the canvas
  is a scale and an offset applied afterwards). The next frame is
  \<open>frames[Math.min(frameIndex + 1, frames.length - 1)]\<close>, and
  \<open>nextFrame?.drivers[code] || pos\<close> falls back to the current sample. Drivers are drawn
  in descending \<open>position\<close>, so the leader comes last. The source sorts the keys of
  \<open>frame.drivers\<close> and looks each sample up; the entries are sorted here, which is the
  same for an object, whose keys are distinct.
\<close>

definition nextPosition :: "Frame list \<Rightarrow> int \<Rightarrow> string \<Rightarrow> DriverPosition \<Rightarrow> DriverPosition" where
  "nextPosition fs i code pos =
     (case at_index fs (min (i + 1) (int (length fs) - 1)) of
        None \<Rightarrow> pos
      | Some nextFrame \<Rightarrow>
          (case map_of (drivers nextFrame) code of None \<Rightarrow> pos | Some nextPos \<Rightarrow> nextPos))"

definition interp :: "DriverPosition \<Rightarrow> DriverPosition \<Rightarrow> real \<Rightarrow> real \<times> real" where
  "interp pos nextPos f =
     (x_pos pos + (x_pos nextPos - x_pos pos) * f, y_pos pos + (y_pos nextPos - y_pos pos) * f)"

definition drawDrivers :: "Frame list \<Rightarrow> int \<Rightarrow> real \<Rightarrow> (string \<times> real \<times> real) list option" where
  "drawDrivers fs i f =
     (case at_index fs i of
        None \<Rightarrow> None
      | Some frame \<Rightarrow>
          Some (map (\<lambda>(code, pos). (code, interp pos (nextPosition fs i code pos) f))
                  (sort_key (\<lambda>(code, pos). - position pos) (drivers frame))))"

text \<open>Linear interpolation as the specification has it, a weighted mean.\<close>

definition lerp :: "real \<Rightarrow> real \<Rightarrow> real \<Rightarrow> real" where
  "lerp a b f = (1 - f) * a + f * b"

section \<open>Progress bar percentage\<close>

text \<open>
  \<open>progress = (frameIndex / (raceData.frames.length - 1)) * 100\<close>. JavaScript's division
  never throws: a zero divisor gives NaN or an infinity, which the result type shows.
\<close>

datatype jsnumber = Finite real | NaN | PlusInfinity | MinusInfinity

definition js_divide :: "real \<Rightarrow> real \<Rightarrow> jsnumber" where
  "js_divide a b =
     (if b = 0 then (if a = 0 then NaN else if 0 < a then PlusInfinity else MinusInfinity)
      else Finite (a / b))"

fun js_times100 :: "jsnumber \<Rightarrow> jsnumber" where
  "js_times100 (Finite a) = Finite (a * 100)"
| "js_times100 NaN = NaN"
| "js_times100 PlusInfinity = PlusInfinity"
| "js_times100 MinusInfinity = MinusInfinity"

definition progress :: "RaceData \<Rightarrow> int \<Rightarrow> jsnumber" where
  "progress rd i =
     js_times100 (js_divide (real_of_int i) (real_of_int (int (length (frames rd)) - 1)))"

section \<open>Radio fallback timeout\<close>

text \<open>
  The callback of the 8 second timer set when a clip fires:
  \<open>setCurrentRadio(prev => prev?.t === clipTimestamp ? null : prev)\<close>.
\<close>

definition fallbackTimeout :: "real \<Rightarrow> TeamRadioClip option \<Rightarrow> TeamRadioClip option" where
  "fallbackTimeout clipTimestamp prev =
     (case prev of
        None \<Rightarrow> prev
      | Some c \<Rightarrow> (if t_clip c = clipTimestamp then None else prev))"

section \<open>Timing board\<close>

text \<open>
  One row per driver of the current frame, in ascending \<open>position\<close>. A number is truthy
  when it is neither \<open>null\<close> nor \<open>0\<close>. The text \<open>+${Math.abs(g).toFixed(3)}s\<close> of a gap
  cell is kept as the number handed to \<open>toFixed\<close>.
\<close>

definition currentLapOf :: "Frame option \<Rightarrow> int" where
  "currentLapOf currentFrame =
     (case currentFrame of None \<Rightarrow> 1 | Some fr \<Rightarrow> (if lap fr = 0 then 1 else lap fr))"

definition sortedDrivers :: "Frame option \<Rightarrow> (string \<times> DriverPosition) list" where
  "sortedDrivers currentFrame =
     (case currentFrame of
        None \<Rightarrow> []
      | Some fr \<Rightarrow> sort_key (\<lambda>(code, pos). position pos) (drivers fr))"

definition lapDataOf :: "RaceData \<Rightarrow> string \<Rightarrow> LapTable option" where
  "lapDataOf rd code = (case lapTiming rd of None \<Rightarrow> None | Some m \<Rightarrow> m code)"

definition lapTimeAt :: "RaceData \<Rightarrow> string \<Rightarrow> int \<Rightarrow> real option" where
  "lapTimeAt rd code n =
     (case lapDataOf rd code of
        None \<Rightarrow> None
      | Some tbl \<Rightarrow> (case map_of (laps tbl) n of None \<Rightarrow> None | Some e \<Rightarrow> time e))"

fun bestLapScan :: "LapEntry list \<Rightarrow> real option \<Rightarrow> real option" where
  "bestLapScan [] bestLapTime = bestLapTime"
| "bestLapScan (l # ls) bestLapTime =
     bestLapScan ls
       (case time l of
          None \<Rightarrow> bestLapTime
        | Some v \<Rightarrow>
            (if v \<noteq> 0 \<and> (case bestLapTime of None \<Rightarrow> True | Some b \<Rightarrow> v < b)
             then Some v else bestLapTime))"

definition bestLapTime :: "LapTable option \<Rightarrow> real option" where
  "bestLapTime lapData =
     (case lapData of None \<Rightarrow> None | Some tbl \<Rightarrow> bestLapScan (map snd (laps tbl)) None)"

definition leaderCode :: "Frame option \<Rightarrow> string option" where
  "leaderCode currentFrame =
     (case sortedDrivers currentFrame of [] \<Rightarrow> None | (code, pos) # rest \<Rightarrow> Some code)"

definition gapToLeader :: "RaceData \<Rightarrow> Frame option \<Rightarrow> string \<Rightarrow> real" where
  "gapToLeader rd currentFrame code =
     (let lastLap = lapTimeAt rd code (currentLapOf currentFrame - 1);
          leaderLap = (case leaderCode currentFrame of
                         None \<Rightarrow> None
                       | Some c \<Rightarrow> lapTimeAt rd c (currentLapOf currentFrame - 1))
      in case lastLap of
           None \<Rightarrow> 0
         | Some a \<Rightarrow>
             (case leaderLap of
                None \<Rightarrow> 0
              | Some b \<Rightarrow> (if a \<noteq> 0 \<and> b \<noteq> 0 then a - b else 0)))"

datatype gap_cell = Leader | Dash | PlusSeconds real

definition gapCell :: "RaceData \<Rightarrow> Frame option \<Rightarrow> nat \<Rightarrow> string \<Rightarrow> gap_cell" where
  "gapCell rd currentFrame idx code =
     (if idx = 0 then Leader
      else if gapToLeader rd currentFrame code \<noteq> 0
           then PlusSeconds \<bar>gapToLeader rd currentFrame code\<bar>
           else Dash)"

record timing_row =
  row_code :: string
  row_drs :: drs_label
  row_bestLap :: "real option"
  row_gap :: gap_cell

definition timingBoard :: "RaceData \<Rightarrow> int \<Rightarrow> timing_row list" where
  "timingBoard rd i =
     (let currentFrame = at_index (frames rd) i
      in map (\<lambda>(idx, (code, pos)).
                \<lparr>row_code = code, row_drs = timingBoardDrs pos,
                 row_bestLap = bestLapTime (lapDataOf rd code),
                 row_gap = gapCell rd currentFrame idx code\<rparr>)
             (enumerate 0 (sortedDrivers currentFrame)))"

text \<open>The times that count for the best lap: every truthy time of the table.\<close>

fun truthyTimes :: "LapEntry list \<Rightarrow> real list" where
  "truthyTimes [] = []"
| "truthyTimes (l # ls) =
     (case time l of
        None \<Rightarrow> truthyTimes ls
      | Some v \<Rightarrow> (if v \<noteq> 0 then v # truthyTimes ls else truthyTimes ls))"

definition recordedTimes :: "LapTable \<Rightarrow> real list" where
  "recordedTimes tbl = truthyTimes (map snd (laps tbl))"

text \<open>
  The best lap "so far" as the specification words it: the minimum over the laps up to
  lap number \<open>n\<close> only.
\<close>

definition bestLapUpTo :: "LapTable \<Rightarrow> int \<Rightarrow> real option" where
  "bestLapUpTo tbl n =
     (let ts = recordedTimes (tbl\<lparr>laps := filter (\<lambda>(k, e). k \<le> n) (laps tbl)\<rparr>)
      in if ts = [] then None else Some (Min (set ts)))"

text \<open>
  A one-frame dataset at lap 6 with lap tables: VER leads, HAM is second, NOR third and
  faster than the leader on lap 5; VER's table also holds laps 6 and 7.
\<close>

definition lapEntry :: "real option \<Rightarrow> LapEntry" where
  "lapEntry v = \<lparr>time = v, s1 = None, s2 = None, s3 = None, is_pb = False, compound = ''SOFT''\<rparr>"

definition timing_race :: RaceData where
  "timing_race =
     \<lparr>frames = [\<lparr>t_frame = 500, lap = 6,
                  drivers = [(''HAM'', sample 4 2 2 9), (''VER'', sample 0 0 1 12),
                             (''NOR'', sample 8 8 3 0)]\<rparr>],
      frameRate = 10, teamRadio = None,
      lapTiming = Some [''VER'' \<mapsto> \<lparr>grid_pos = 1, laps = [(5, lapEntry (Some 90)), (6, lapEntry None), (7, lapEntry (Some 85))]\<rparr>,
                        ''HAM'' \<mapsto> \<lparr>grid_pos = 3, laps = [(4, lapEntry (Some 93)), (5, lapEntry (Some (92345/1000)))]\<rparr>,
                        ''NOR'' \<mapsto> \<lparr>grid_pos = 2, laps = [(5, lapEntry (Some 89))]\<rparr>]\<rparr>"

section \<open>Team radio\<close>

text \<open>
  The set of played clip indices (a JavaScript \<open>Set\<close>, iterated in insertion order) is a
  list without repetitions; \<open>audioRef\<close> holds the URL of the audio element last created.
\<close>

record radio =
  playedRadioClips :: "nat list"
  currentRadio :: "TeamRadioClip option"
  audioRef :: "string option"

definition initial_radio :: radio where
  "initial_radio = \<lparr>playedRadioClips = [], currentRadio = None, audioRef = None\<rparr>"

text \<open>\<open>raceData.frames[frameIndex]?.t || 0\<close>.\<close>

definition currentTimeOf :: "RaceData \<Rightarrow> int \<Rightarrow> real" where
  "currentTimeOf rd i = (case at_index (frames rd) i of None \<Rightarrow> 0 | Some fr \<Rightarrow> t_frame fr)"

definition inWindow :: "TeamRadioClip \<Rightarrow> real \<Rightarrow> bool" where
  "inWindow clip currentTime = (currentTime \<ge> t_clip clip \<and> currentTime < t_clip clip + 3)"

text \<open>
  The \<open>for\<close> loop of the playback effect over the clips from index \<open>i\<close> on: \<open>continue\<close>
  on a played clip, \<open>break\<close> at the first clip whose window holds the current time.
\<close>

fun findClip :: "TeamRadioClip list \<Rightarrow> nat \<Rightarrow> nat list \<Rightarrow> real \<Rightarrow> nat option" where
  "findClip [] i played currentTime = None"
| "findClip (clip # rest) i played currentTime =
     (if i \<in> set played then findClip rest (Suc i) played currentTime
      else if inWindow clip currentTime then Some i
      else findClip rest (Suc i) played currentTime)"

text \<open>
  The playback effect. Its second result is the index of the clip whose audio it
  started, if any.
\<close>

definition radioPlaybackEffect ::
  "RaceData option \<Rightarrow> bool \<Rightarrow> bool \<Rightarrow> int \<Rightarrow> radio \<Rightarrow> radio \<times> nat option" where
  "radioPlaybackEffect raceData radioEnabled hasInteracted i st =
     (case raceData of
        None \<Rightarrow> (st, None)
      | Some rd \<Rightarrow>
          (case teamRadio rd of
             None \<Rightarrow> (st, None)
           | Some clips \<Rightarrow>
               if \<not> radioEnabled \<or> length clips = 0 then (st, None)
               else if \<not> hasInteracted then (st, None)
               else
                 (case findClip clips 0 (playedRadioClips st) (currentTimeOf rd i) of
                    None \<Rightarrow> (st, None)
                  | Some k \<Rightarrow>
                      (st\<lparr>playedRadioClips := playedRadioClips st @ [k],
                          currentRadio := Some (clips ! k),
                          audioRef := Some (url (clips ! k))\<rparr>,
                       Some k))))"

text \<open>
  The reset effect: every played index whose clip exists and lies after the current time
  is deleted from the set.
\<close>

definition clipAt :: "RaceData option \<Rightarrow> nat \<Rightarrow> TeamRadioClip option" where
  "clipAt raceData k =
     (case raceData of
        None \<Rightarrow> None
      | Some rd \<Rightarrow> (case teamRadio rd of None \<Rightarrow> None | Some clips \<Rightarrow> at_index clips (int k)))"

definition radioResetEffect :: "RaceData option \<Rightarrow> int \<Rightarrow> radio \<Rightarrow> radio" where
  "radioResetEffect raceData i st =
     (let currentTime = (case raceData of None \<Rightarrow> 0 | Some rd \<Rightarrow> currentTimeOf rd i)
      in st\<lparr>playedRadioClips :=
              filter (\<lambda>k. case clipAt raceData k of
                             None \<Rightarrow> True
                           | Some clip \<Rightarrow> \<not> t_clip clip > currentTime)
                     (playedRadioClips st)\<rparr>)"

text \<open>
  A change of \<open>frameIndex\<close> runs both effects, in the order of the source. \<open>sweep\<close> runs
  them for a sequence of frame indices and collects what fired.
\<close>

definition onFrameIndexChange ::
  "RaceData option \<Rightarrow> bool \<Rightarrow> bool \<Rightarrow> int \<Rightarrow> radio \<Rightarrow> radio \<times> nat option" where
  "onFrameIndexChange raceData radioEnabled hasInteracted i st =
     (case radioPlaybackEffect raceData radioEnabled hasInteracted i st of
        (st1, fired) \<Rightarrow> (radioResetEffect raceData i st1, fired))"

fun sweep ::
  "RaceData option \<Rightarrow> bool \<Rightarrow> bool \<Rightarrow> int list \<Rightarrow> radio \<Rightarrow> radio \<times> nat option list" where
  "sweep raceData radioEnabled hasInteracted [] st = (st, [])"
| "sweep raceData radioEnabled hasInteracted (i # rest) st =
     (case onFrameIndexChange raceData radioEnabled hasInteracted i st of
        (st1, fired) \<Rightarrow>
          (case sweep raceData radioEnabled hasInteracted rest st1 of
             (st2, later) \<Rightarrow> (st2, fired # later)))"

text \<open>
  Four frames at times 50, 100, 101 and 105 and three clips, all stamped 100.
\<close>

definition radio_clip :: "real \<Rightarrow> string \<Rightarrow> TeamRadioClip" where
  "radio_clip ts code = \<lparr>t_clip = ts, driver = code, driverNumber = 1, url = ''/radio/'' @ code @ ''.mp3''\<rparr>"

definition radio_race :: RaceData where
  "radio_race =
     \<lparr>frames = [\<lparr>t_frame = 50, lap = 1, drivers = []\<rparr>, \<lparr>t_frame = 100, lap = 2, drivers = []\<rparr>,
                \<lparr>t_frame = 101, lap = 2, drivers = []\<rparr>, \<lparr>t_frame = 105, lap = 2, drivers = []\<rparr>],
      frameRate = 1,
      teamRadio = Some [radio_clip 100 ''VER'', radio_clip 100 ''HAM'', radio_clip 100 ''NOR''],
      lapTiming = None\<rparr>"


section \<open>Sub-frame interpolation\<close>

lemma interp_lerp: "interp p q f = (lerp (x_pos p) (x_pos q) f, lerp (y_pos p) (y_pos q) f)"
  by (simp add: interp_def lerp_def algebra_simps)

lemma lerp_tendsto: "((\<lambda>f. lerp a b f) \<longlongrightarrow> b) (at_left 1)"
  unfolding lerp_def by (auto intro!: tendsto_eq_intros)

lemma lerp_dist: "\<bar>b - lerp a b f\<bar> = \<bar>1 - f\<bar> * \<bar>b - a\<bar>"
proof -
  have "b - lerp a b f = (1 - f) * (b - a)" by (simp add: lerp_def algebra_simps)
  then show ?thesis by (simp add: abs_mult)
qed

lemma drawDrivers_entry:
  assumes "0 \<le> i" "i < int (length fs)" "(code, pos) \<in> set (drivers (fs ! nat i))"
  shows "\<exists>ds. drawDrivers fs i f = Some ds \<and>
           (code, interp pos (nextPosition fs i code pos) f) \<in> set ds"
proof -
  have "at_index fs i = Some (fs ! nat i)" using assms by (simp add: at_index_def)
  moreover have "(code, pos) \<in> set (sort_key (\<lambda>(code, pos). - position pos) (drivers (fs ! nat i)))"
    using assms by simp
  ultimately show ?thesis
    by (auto simp: drawDrivers_def intro!: image_eqI[where x="(code, pos)"])
qed

lemma nextPosition_cases:
  assumes "0 \<le> i" "i < int (length fs)" "map_of (drivers (fs ! nat i)) code = Some pos"
  shows "nextPosition fs i code pos =
           (if i + 1 < int (length fs)
            then (case map_of (drivers (fs ! nat (i + 1))) code of None \<Rightarrow> pos | Some q \<Rightarrow> q)
            else pos)"
proof (cases "i + 1 < int (length fs)")
  case True
  then have "min (i + 1) (int (length fs) - 1) = i + 1" by simp
  with True assms show ?thesis by (simp add: nextPosition_def at_index_def)
next
  case False
  with assms have eq: "int (length fs) - 1 = i" by simp
  then have "min (i + 1) (int (length fs) - 1) = i" by simp
  then have "nextPosition fs i code pos =
      (case at_index fs i of None \<Rightarrow> pos
       | Some nextFrame \<Rightarrow>
           (case map_of (drivers nextFrame) code of None \<Rightarrow> pos | Some nextPos \<Rightarrow> nextPos))"
    by (simp only: nextPosition_def)
  with False assms show ?thesis by (simp add: at_index_def)
qed

text \<open>
  Claim C1. At a valid frame index \<open>i\<close> and a fraction \<open>f\<close> in \<open>[0, 1)\<close>, each driver
  of frame \<open>i\<close> is drawn at the linear interpolation between its position in frame \<open>i\<close>
  and its next position, taken from frame \<open>min(i + 1, last)\<close>. At \<open>f = 0\<close> this is the
  position of frame \<open>i\<close>; as \<open>f\<close> tends to \<open>1\<close> from below it tends to the next
  position, the remaining distance being \<open>(1 - f)\<close> times the whole distance; a driver
  absent from the next frame keeps its current position.
\<close>

theorem interpolated_position_is_lerp:
  assumes "0 \<le> i" and "i < int (length fs)" and "0 \<le> f" and "f < 1"
    and "distinct (map fst (drivers (fs ! nat i)))"
    and "(code, pos) \<in> set (drivers (fs ! nat i))"
  shows "(\<exists>ds. drawDrivers fs i f = Some ds \<and>
            (code, lerp (x_pos pos) (x_pos (nextPosition fs i code pos)) f,
                   lerp (y_pos pos) (y_pos (nextPosition fs i code pos)) f) \<in> set ds) \<and>
         (\<exists>ds. drawDrivers fs i 0 = Some ds \<and> (code, x_pos pos, y_pos pos) \<in> set ds) \<and>
         ((\<lambda>g. interp pos (nextPosition fs i code pos) g) \<longlongrightarrow>
            (x_pos (nextPosition fs i code pos), y_pos (nextPosition fs i code pos))) (at_left 1) \<and>
         \<bar>x_pos (nextPosition fs i code pos) - fst (interp pos (nextPosition fs i code pos) f)\<bar>
            = (1 - f) * \<bar>x_pos (nextPosition fs i code pos) - x_pos pos\<bar> \<and>
         \<bar>y_pos (nextPosition fs i code pos) - snd (interp pos (nextPosition fs i code pos) f)\<bar>
            = (1 - f) * \<bar>y_pos (nextPosition fs i code pos) - y_pos pos\<bar> \<and>
         nextPosition fs i code pos =
           (if i + 1 < int (length fs)
            then (case map_of (drivers (fs ! nat (i + 1))) code of None \<Rightarrow> pos | Some q \<Rightarrow> q)
            else pos)"
proof -
  let ?np = "nextPosition fs i code pos"
  have m: "map_of (drivers (fs ! nat i)) code = Some pos"
    using assms(5,6) by (rule map_of_is_SomeI)
  have a: "\<exists>ds. drawDrivers fs i f = Some ds \<and>
            (code, lerp (x_pos pos) (x_pos ?np) f, lerp (y_pos pos) (y_pos ?np) f) \<in> set ds"
    using drawDrivers_entry[OF assms(1,2,6), of f] by (simp add: interp_lerp)
  have b: "\<exists>ds. drawDrivers fs i 0 = Some ds \<and> (code, x_pos pos, y_pos pos) \<in> set ds"
    using drawDrivers_entry[OF assms(1,2,6), of 0] by (simp add: interp_def)
  have c: "((\<lambda>g. interp pos ?np g) \<longlongrightarrow> (x_pos ?np, y_pos ?np)) (at_left 1)"
    unfolding interp_lerp by (intro tendsto_Pair lerp_tendsto)
  have d: "\<bar>x_pos ?np - fst (interp pos ?np f)\<bar> = (1 - f) * \<bar>x_pos ?np - x_pos pos\<bar>"
    using lerp_dist[of "x_pos ?np" "x_pos pos" f] assms(4) by (simp add: interp_lerp)
  have e: "\<bar>y_pos ?np - snd (interp pos ?np f)\<bar> = (1 - f) * \<bar>y_pos ?np - y_pos pos\<bar>"
    using lerp_dist[of "y_pos ?np" "y_pos pos" f] assms(4) by (simp add: interp_lerp)
  from a b c d e nextPosition_cases[OF assms(1,2) m] show ?thesis by blast
qed

theorem interpolated_position_is_lerp_witness:
  "(0::int) \<le> 0 \<and> (0::int) < int (length example_frames) \<and> (0::real) \<le> 1/2 \<and> (1/2::real) < 1 \<and>
   distinct (map fst (drivers (example_frames ! nat 0))) \<and>
   (''VER'', sample 0 0 1 12) \<in> set (drivers (example_frames ! nat 0)) \<and>
   (''HAM'', sample 4 2 2 9) \<in> set (drivers (example_frames ! nat 0)) \<and>
   nextPosition example_frames 0 ''VER'' (sample 0 0 1 12) = sample 10 20 1 10 \<and>
   nextPosition example_frames 0 ''HAM'' (sample 4 2 2 9) = sample 4 2 2 9 \<and>
   drawDrivers example_frames 0 (1/2) = Some [(''HAM'', 4, 2), (''VER'', 5, 10)]"
proof -
  have h1: "(0::int) \<le> 0" and h2: "(0::int) < int (length example_frames)"
    and h3: "(0::real) \<le> 1/2" and h4: "(1/2::real) < 1"
    by (simp_all add: example_frames_def)
  have h5: "distinct (map fst (drivers (example_frames ! nat 0)))"
    by (simp add: example_frames_def)
  have h6: "(''VER'', sample 0 0 1 12) \<in> set (drivers (example_frames ! nat 0))"
    and h7: "(''HAM'', sample 4 2 2 9) \<in> set (drivers (example_frames ! nat 0))"
    by (simp_all add: example_frames_def)
  have n1: "nextPosition example_frames 0 ''VER'' (sample 0 0 1 12) = sample 10 20 1 10"
    using interpolated_position_is_lerp[OF h1 h2 h3 h4 h5 h6]
    by (simp add: example_frames_def)
  have n2: "nextPosition example_frames 0 ''HAM'' (sample 4 2 2 9) = sample 4 2 2 9"
    using interpolated_position_is_lerp[OF h1 h2 h3 h4 h5 h7]
    by (simp add: example_frames_def)
  have d: "drawDrivers example_frames 0 (1/2) = Some [(''HAM'', 4, 2), (''VER'', 5, 10)]"
    by (simp add: drawDrivers_def at_index_def example_frames_def nextPosition_def interp_def
          sample_def)
  from h1 h2 h3 h4 h5 h6 h7 n1 n2 d show ?thesis by blast
qed

section \<open>Frame index: seeks and the tick\<close>

lemma progressBarTarget_in_range:
  assumes "0 < w" "l \<le> cx" "cx \<le> l + w" "0 < n"
  shows "\<exists>i. progressBarTarget cx l w n = Some i \<and> 0 \<le> i \<and> i \<le> int n - 1"
proof -
  let ?p = "(cx - l) / w"
  let ?m = "real_of_int (int n - 1)"
  have p0: "0 \<le> ?p" and p1: "?p \<le> 1" using assms by (simp_all add: field_simps)
  have m0: "0 \<le> ?m" using assms by simp
  have lo: "0 \<le> ?p * ?m" using p0 m0 by (rule mult_nonneg_nonneg)
  have "?p * ?m \<le> 1 * ?m" using p1 m0 by (rule mult_right_mono)
  then have hi: "?p * ?m \<le> ?m" by simp
  have "0 \<le> \<lfloor>?p * ?m\<rfloor>" using lo by simp
  moreover have "\<lfloor>?p * ?m\<rfloor> \<le> \<lfloor>?m\<rfloor>" using hi by (rule floor_mono)
  then have "\<lfloor>?p * ?m\<rfloor> \<le> int n - 1" by (simp only: floor_of_int)
  ultimately show ?thesis using assms by (simp add: progressBarTarget_def)
qed

lemma handle_index_ok:
  assumes "frames rd \<noteq> []" "index_ok rd st" "pointer_on_bar e"
  shows "\<exists>st'. handle rd e st = Some st' \<and> index_ok rd st'"
proof (cases e)
  case (Key k)
  then show ?thesis using assms
    by (cases k) (auto simp: index_ok_def lastIndexOr0_def)
next
  case (Button b)
  then show ?thesis using assms
    by (cases b) (auto simp: index_ok_def)
next
  case (ProgressBarClick cx l w)
  with assms have "0 < w" "l \<le> cx" "cx \<le> l + w" "0 < length (frames rd)" by simp_all
  from progressBarTarget_in_range[OF this] ProgressBarClick show ?thesis
    by (auto simp: index_ok_def)
next
  case (AnimationFrame tm)
  then show ?thesis using assms
    by (auto simp: index_ok_def animate_def Let_def)
qed

lemma run_index_ok:
  assumes "frames rd \<noteq> []" "index_ok rd st" "\<forall>e\<in>set es. pointer_on_bar e"
  shows "\<exists>st'. run rd es st = Some st' \<and> index_ok rd st'"
  using assms
proof (induction es arbitrary: st)
  case Nil
  then show ?case by simp
next
  case (Cons e es)
  then obtain st1 where s1: "handle rd e st = Some st1" "index_ok rd st1"
    using handle_index_ok[of rd st e] by auto
  with Cons show ?case by auto
qed

lemma animate_at_end:
  assumes "tick_due rd tm st" "frameIndex st = int (length (frames rd)) - 1"
  shows "frameIndex (animate rd tm st) = int (length (frames rd)) - 1 \<and> \<not> isPlaying (animate rd tm st)"
  using assms by (simp add: tick_due_def animate_def Let_def)

lemma animate_advance:
  assumes "tick_due rd tm st" "frameIndex st < int (length (frames rd)) - 1"
  shows "frameIndex (animate rd tm st) = frameIndex st + 1 \<and> isPlaying (animate rd tm st)"
  using assms by (simp add: tick_due_def animate_def Let_def)

lemma seek_landing:
  "frameIndex (handleKeyDown (Some rd) ArrowRight st)
     = min (frameIndex st + 10) (if frames rd = [] then 0 else int (length (frames rd)) - 1) \<and>
   frameIndex (handleKeyDown (Some rd) ArrowLeft st) = max (frameIndex st - 10) 0 \<and>
   frameIndex (handleKeyDown (Some rd) KeyR st) = 0 \<and>
   frameIndex (handleButton rd Restart st) = 0 \<and>
   frameIndex (handleButton rd Rewind st) = max (frameIndex st - 50) 0 \<and>
   frameIndex (handleButton rd FastForward st)
     = min (frameIndex st + 50) (int (length (frames rd)) - 1)"
  by (simp add: lastIndexOr0_def)

text \<open>
  Claim C3. Every operation that changes the frame index keeps it within
  \<open>0 .. frames.length - 1\<close>, out-of-range seeks being clamped. The arrow keys, the rewind
  and fast-forward buttons and the animation callback do so. The click on the progress
  bar sets \<open>Math.floor(percent * (frames.length - 1))\<close> without a clamp: on the
  three-frame dataset, at frame 0, a click with \<open>clientX = 100\<close> on a bar whose rectangle
  starts at 100.5 and is 100 wide sets the index to \<open>-1\<close>, and a click at 400 on a bar
  from 100 to 200 sets it to 6, while the keys and buttons, from the same state, end at
  0 and at the last index 2.
\<close>

theorem progress_bar_click_unclamped:
  "frames example_race \<noteq> [] \<and> index_ok example_race initial_playback \<and>
   handle example_race (ProgressBarClick 100 (201/2) 100) initial_playback
     = Some (initial_playback\<lparr>frameIndex := - 1\<rparr>) \<and>
   \<not> index_ok example_race (initial_playback\<lparr>frameIndex := - 1\<rparr>) \<and>
   handle example_race (ProgressBarClick 400 100 100) initial_playback
     = Some (initial_playback\<lparr>frameIndex := 6\<rparr>) \<and>
   \<not> index_ok example_race (initial_playback\<lparr>frameIndex := 6\<rparr>) \<and>
   handle example_race (Key ArrowLeft) initial_playback = Some (initial_playback\<lparr>frameIndex := 0\<rparr>) \<and>
   handle example_race (Button Rewind) initial_playback = Some (initial_playback\<lparr>frameIndex := 0\<rparr>) \<and>
   handle example_race (Key ArrowRight) initial_playback = Some (initial_playback\<lparr>frameIndex := 2\<rparr>) \<and>
   handle example_race (Button FastForward) initial_playback
     = Some (initial_playback\<lparr>frameIndex := 2\<rparr>)"
  by code_simp
section \<open>Playback speed\<close>

lemma speed_event_keyboard:
  assumes "1/2 \<le> playbackSpeed st" "playbackSpeed st \<le> 8" "e \<in> {Key ArrowUp, Key ArrowDown}"
  shows "\<exists>st'. handle rd e st = Some st' \<and> 1/2 \<le> playbackSpeed st' \<and> playbackSpeed st' \<le> 8"
  using assms by auto

lemma speed_event_cycle:
  assumes "playbackSpeed st \<in> cycle_speeds" "e \<in> speed_events"
  shows "\<exists>st'. handle rd e st = Some st' \<and> playbackSpeed st' \<in> cycle_speeds"
  using assms by (auto simp: cycle_speeds_def speed_events_def)

lemma run_keyboard_speed:
  assumes "1/2 \<le> playbackSpeed st" "playbackSpeed st \<le> 8" "set es \<subseteq> {Key ArrowUp, Key ArrowDown}"
  shows "\<exists>st'. run rd es st = Some st' \<and> 1/2 \<le> playbackSpeed st' \<and> playbackSpeed st' \<le> 8"
  using assms
proof (induction es arbitrary: st)
  case Nil
  then show ?case by simp
next
  case (Cons e es)
  then have "e \<in> {Key ArrowUp, Key ArrowDown}" by simp
  from speed_event_keyboard[OF Cons.prems(1,2) this, of rd]
  obtain st1 where "handle rd e st = Some st1" "1/2 \<le> playbackSpeed st1" "playbackSpeed st1 \<le> 8"
    by blast
  moreover from Cons.prems(3) have "set es \<subseteq> {Key ArrowUp, Key ArrowDown}" by simp
  ultimately show ?case using Cons.IH[of st1] by simp
qed

lemma run_cycle_speed:
  assumes "playbackSpeed st \<in> cycle_speeds" "set es \<subseteq> speed_events"
  shows "\<exists>st'. run rd es st = Some st' \<and> playbackSpeed st' \<in> cycle_speeds"
  using assms
proof (induction es arbitrary: st)
  case Nil
  then show ?case by simp
next
  case (Cons e es)
  then have "e \<in> speed_events" by simp
  from speed_event_cycle[OF Cons.prems(1) this, of rd]
  obtain st1 where "handle rd e st = Some st1" "playbackSpeed st1 \<in> cycle_speeds" by blast
  moreover from Cons.prems(2) have "set es \<subseteq> speed_events" by simp
  ultimately show ?case using Cons.IH[of st1] by simp
qed

text \<open>
  Claim C4 (amended). Doubling and halving from the keyboard keep any speed of
  \<open>[0.5, 8]\<close> inside \<open>[0.5, 8]\<close>. With the cycling speed button as well, the speed
  stays in \<open>{0.5, 1, 2, 4, 8}\<close>, hence in \<open>[0.5, 8]\<close>, when it starts in that set
  (the initial speed is \<open>1\<close>).
\<close>

theorem speed_stays_in_range:
  assumes "set es \<subseteq> speed_events"
  shows "(1/2 \<le> playbackSpeed st \<and> playbackSpeed st \<le> 8 \<and> Button SpeedCycle \<notin> set es \<longrightarrow>
            (\<exists>st'. run rd es st = Some st' \<and> 1/2 \<le> playbackSpeed st' \<and> playbackSpeed st' \<le> 8)) \<and>
         (playbackSpeed st \<in> cycle_speeds \<longrightarrow>
            (\<exists>st'. run rd es st = Some st' \<and> playbackSpeed st' \<in> cycle_speeds \<and>
                   1/2 \<le> playbackSpeed st' \<and> playbackSpeed st' \<le> 8))"
proof (intro conjI impI)
  assume a: "1/2 \<le> playbackSpeed st \<and> playbackSpeed st \<le> 8 \<and> Button SpeedCycle \<notin> set es"
  with assms have "set es \<subseteq> {Key ArrowUp, Key ArrowDown}"
    by (auto simp: speed_events_def)
  with a show "\<exists>st'. run rd es st = Some st' \<and> 1/2 \<le> playbackSpeed st' \<and> playbackSpeed st' \<le> 8"
    using run_keyboard_speed[of st es rd] by simp
next
  assume "playbackSpeed st \<in> cycle_speeds"
  from run_cycle_speed[OF this assms, of rd]
  show "\<exists>st'. run rd es st = Some st' \<and> playbackSpeed st' \<in> cycle_speeds \<and>
                   1/2 \<le> playbackSpeed st' \<and> playbackSpeed st' \<le> 8"
    by (auto simp: cycle_speeds_def)
qed

text \<open>
  The claim as first stated fails: from speed \<open>5\<close>, which lies in \<open>[0.5, 8]\<close>, the
  cycling button doubles to \<open>10\<close>.
\<close>

theorem speed_cycle_counterexample:
  "1/2 \<le> playbackSpeed (initial_playback\<lparr>playbackSpeed := 5\<rparr>) \<and>
   playbackSpeed (initial_playback\<lparr>playbackSpeed := 5\<rparr>) \<le> 8 \<and>
   set [Button SpeedCycle] \<subseteq> speed_events \<and>
   run example_race [Button SpeedCycle] (initial_playback\<lparr>playbackSpeed := 5\<rparr>)
     = Some (initial_playback\<lparr>playbackSpeed := 10\<rparr>) \<and>
   \<not> playbackSpeed (initial_playback\<lparr>playbackSpeed := 10\<rparr>) \<le> 8"
  by (simp add: initial_playback_def speed_events_def)

theorem speed_stays_in_range_witness:
  "set [Key ArrowUp, Button SpeedCycle, Key ArrowUp, Key ArrowUp, Button SpeedCycle, Key ArrowDown]
     \<subseteq> speed_events \<and>
   playbackSpeed initial_playback \<in> cycle_speeds \<and>
   (\<exists>st'. run example_race
       [Key ArrowUp, Button SpeedCycle, Key ArrowUp, Key ArrowUp, Button SpeedCycle, Key ArrowDown]
       initial_playback = Some st' \<and> playbackSpeed st' \<in> cycle_speeds \<and>
       1/2 \<le> playbackSpeed st' \<and> playbackSpeed st' \<le> 8) \<and>
   set [Key ArrowUp, Key ArrowDown] \<subseteq> speed_events \<and>
   (\<exists>st'. run example_race [Key ArrowUp, Key ArrowDown] (initial_playback\<lparr>playbackSpeed := 5\<rparr>)
       = Some st' \<and> 1/2 \<le> playbackSpeed st' \<and> playbackSpeed st' \<le> 8)"
proof -
  let ?es = "[Key ArrowUp, Button SpeedCycle, Key ArrowUp, Key ArrowUp, Button SpeedCycle, Key ArrowDown]"
  have h1: "set ?es \<subseteq> speed_events" by (simp add: speed_events_def)
  have h2: "playbackSpeed initial_playback \<in> cycle_speeds"
    by (simp add: initial_playback_def cycle_speeds_def)
  have h3: "set [Key ArrowUp, Key ArrowDown] \<subseteq> speed_events" by (simp add: speed_events_def)
  have h4: "1/2 \<le> playbackSpeed (initial_playback\<lparr>playbackSpeed := 5\<rparr>) \<and>
            playbackSpeed (initial_playback\<lparr>playbackSpeed := 5\<rparr>) \<le> 8 \<and>
            Button SpeedCycle \<notin> set [Key ArrowUp, Key ArrowDown]" by simp
  from speed_stays_in_range[OF h1, of initial_playback example_race] h2
    speed_stays_in_range[OF h3, of "initial_playback\<lparr>playbackSpeed := 5\<rparr>" example_race] h4
    h1 h3
  show ?thesis by blast
qed

section \<open>Restart\<close>

text \<open>
  Claim C9. Restart is seek to frame 0 followed by pause. The key \<open>R\<close> does both. The
  restart button only resets the frame index: from the state reached by pressing Space
  and ArrowRight (playing, at frame 2) it leaves \<open>isPlaying\<close> true.
\<close>

theorem restart_button_keeps_playing:
  "run example_race [Key Space, Key ArrowRight] initial_playback
     = Some (initial_playback\<lparr>frameIndex := 2, isPlaying := True\<rparr>) \<and>
   handle example_race (Button Restart) (initial_playback\<lparr>frameIndex := 2, isPlaying := True\<rparr>)
     = Some (initial_playback\<lparr>frameIndex := 0, isPlaying := True\<rparr>) \<and>
   handle example_race (Key KeyR) (initial_playback\<lparr>frameIndex := 2, isPlaying := True\<rparr>)
     = Some (initial_playback\<lparr>frameIndex := 0, isPlaying := False\<rparr>)"
  by (simp add: initial_playback_def lastIndexOr0_def example_race_def example_frames_def)

section \<open>DRS indicator: the threshold\<close>

text \<open>
  Claim C8. The DRS cell of the timing board and of the driver info panel shows ON
  exactly when the sample's \<open>drs\<close> value is at least \<open>10\<close>: \<open>9\<close> shows OFF, \<open>10\<close>
  shows ON.
\<close>

theorem drs_on_iff_at_least_10:
  "(timingBoardDrs pos = ON \<longleftrightarrow> drs pos \<ge> 10) \<and>
   (timingBoardDrs pos = OFF \<longleftrightarrow> drs pos < 10) \<and>
   (code \<noteq> [] \<and> map_of (drivers fr) code = Some pos \<longrightarrow>
      (driverInfoDrs (Some fr) (Some code) = Some ON \<longleftrightarrow> drs pos \<ge> 10) \<and>
      (driverInfoDrs (Some fr) (Some code) = Some OFF \<longleftrightarrow> drs pos < 10)) \<and>
   timingBoardDrs (pos\<lparr>drs := 9\<rparr>) = OFF \<and> timingBoardDrs (pos\<lparr>drs := 10\<rparr>) = ON"
  by (simp add: timingBoardDrs_def driverInfoDrs_def drsLabel_def)

theorem drs_on_iff_at_least_10_witness:
  "''HAM'' \<noteq> [] \<and> map_of (drivers (example_frames ! 0)) ''HAM'' = Some (sample 4 2 2 9) \<and>
   driverInfoDrs (Some (example_frames ! 0)) (Some ''HAM'') = Some OFF \<and>
   ''VER'' \<noteq> [] \<and> map_of (drivers (example_frames ! 1)) ''VER'' = Some (sample 10 20 1 10) \<and>
   driverInfoDrs (Some (example_frames ! 1)) (Some ''VER'') = Some ON"
proof -
  have h1: "''HAM'' \<noteq> [] \<and> map_of (drivers (example_frames ! 0)) ''HAM'' = Some (sample 4 2 2 9)"
    by (simp add: example_frames_def)
  have h2: "''VER'' \<noteq> [] \<and> map_of (drivers (example_frames ! 1)) ''VER'' = Some (sample 10 20 1 10)"
    by (simp add: example_frames_def)
  have d1: "drs (sample 4 2 2 9) < 10" and d2: "drs (sample 10 20 1 10) \<ge> 10"
    by (simp_all add: sample_def)
  from drs_on_iff_at_least_10[of "sample 4 2 2 9" "''HAM''" "example_frames ! 0"]
       drs_on_iff_at_least_10[of "sample 10 20 1 10" "''VER''" "example_frames ! 1"]
       h1 h2 d1 d2
  show ?thesis by blast
qed

section \<open>Progress percentage\<close>

text \<open>
  Claim C5 (amended). The progress percentage divides by \<open>frames.length - 1\<close> without a
  guard. The divisor is non-zero, and the percentage a finite number, for every dataset
  whose frame list does not have exactly one frame: for an empty list the divisor is
  \<open>-1\<close>. With exactly one frame the divisor is zero and the percentage is NaN at frame
  index 0. The target of a click on the progress bar multiplies by
  \<open>frames.length - 1\<close> and does not divide by it: with one frame it is \<open>0\<close>.
\<close>

theorem progress_divides_by_zero_iff_one_frame:
  "(length (frames rd) \<noteq> 1 \<longrightarrow>
      progress rd i = Finite (real_of_int i / real_of_int (int (length (frames rd)) - 1) * 100)) \<and>
   (length (frames rd) = 1 \<longrightarrow>
      progress rd i = (if i = 0 then NaN else if 0 < i then PlusInfinity else MinusInfinity)) \<and>
   (frames rd = [] \<longrightarrow> progress rd i = Finite (- real_of_int i * 100)) \<and>
   (rect_width \<noteq> 0 \<longrightarrow>
      progressBarTarget clientX rect_left rect_width (length (frames rd))
        = Some \<lfloor>(clientX - rect_left) / rect_width * real_of_int (int (length (frames rd)) - 1)\<rfloor>) \<and>
   (rect_width \<noteq> 0 \<and> length (frames rd) = 1 \<longrightarrow>
      progressBarTarget clientX rect_left rect_width (length (frames rd)) = Some 0)"
  by (simp add: progress_def js_divide_def progressBarTarget_def)

theorem progress_divides_by_zero_iff_one_frame_witness:
  "length (frames example_race) \<noteq> 1 \<and> progress example_race 1 = Finite 50 \<and>
   length (frames timing_race) = 1 \<and> progress timing_race 0 = NaN \<and>
   progressBarTarget 150 100 100 (length (frames timing_race)) = Some 0"
proof -
  have h1: "length (frames example_race) \<noteq> 1" by (simp add: example_race_def example_frames_def)
  have h2: "length (frames timing_race) = 1" by (simp add: timing_race_def)
  have h3: "(100::real) \<noteq> 0" by simp
  have n: "int (length (frames example_race)) - 1 = 2"
    by (simp add: example_race_def example_frames_def)
  from progress_divides_by_zero_iff_one_frame[of example_race 1 100 150 100]
       progress_divides_by_zero_iff_one_frame[of timing_race 0 100 150 100] h1 h2 h3 n
  show ?thesis by simp
qed

text \<open>
  The claim as first stated fails: with exactly one frame the divisor is zero and the
  percentage at the initial frame index is \<open>0 / 0\<close>.
\<close>

theorem progress_one_frame_counterexample:
  "length (frames timing_race) = 1 \<and>
   real_of_int (int (length (frames timing_race)) - 1) = 0 \<and>
   progress timing_race (frameIndex initial_playback) = NaN"
  by (simp add: timing_race_def progress_def js_divide_def initial_playback_def)

section \<open>Timing board: best lap\<close>

lemma Min_insert_drop:
  fixes v b :: real
  assumes "finite S" "v \<le> b"
  shows "Min (insert b (insert v S)) = Min (insert v S)"
proof -
  have "Min (insert v S) \<le> v" using assms(1) by simp
  then have "Min (insert v S) \<le> b" using assms(2) by simp
  moreover have "Min (insert b (insert v S)) = min b (Min (insert v S))"
    using assms(1) by simp
  ultimately show ?thesis by (simp add: min_def)
qed

lemma bestLapScan_Some:
  "bestLapScan ls (Some b) = Some (Min (insert b (set (truthyTimes ls))))"
proof (induction ls arbitrary: b)
  case Nil
  show ?case by simp
next
  case (Cons l ls)
  let ?S = "set (truthyTimes ls)"
  show ?case
  proof (cases "time l")
    case None
    then show ?thesis using Cons.IH[of b] by simp
  next
    case (Some v)
    consider "v = 0" | "v \<noteq> 0" "v < b" | "v \<noteq> 0" "b \<le> v" by linarith
    then show ?thesis
    proof cases
      case 1
      with Some show ?thesis using Cons.IH[of b] by simp
    next
      case 2
      have "Min (insert b (insert v ?S)) = Min (insert v ?S)"
        using 2(2) by (intro Min_insert_drop) simp_all
      with 2 Some show ?thesis using Cons.IH[of v] by simp
    next
      case 3
      have "Min (insert v (insert b ?S)) = Min (insert b ?S)"
        using 3(2) by (intro Min_insert_drop) simp_all
      then have "Min (insert b (insert v ?S)) = Min (insert b ?S)"
        by (simp only: insert_commute)
      with 3 Some show ?thesis using Cons.IH[of b] by simp
    qed
  qed
qed

lemma bestLapScan_None:
  "bestLapScan ls None =
     (if truthyTimes ls = [] then None else Some (Min (set (truthyTimes ls))))"
proof (induction ls)
  case Nil
  show ?case by simp
next
  case (Cons l ls)
  show ?case
  proof (cases "time l")
    case None
    then show ?thesis using Cons.IH by simp
  next
    case (Some v)
    then show ?thesis using Cons.IH by (simp add: bestLapScan_Some)
  qed
qed

lemma bestLapTime_Min:
  "bestLapTime (Some tbl) =
     (if recordedTimes tbl = [] then None else Some (Min (set (recordedTimes tbl))))"
  by (simp add: bestLapTime_def recordedTimes_def bestLapScan_None)

lemma timingBoard_row:
  assumes "r \<in> set (timingBoard rd i)"
  shows "\<exists>idx pos. r = \<lparr>row_code = row_code r, row_drs = timingBoardDrs pos,
                 row_bestLap = bestLapTime (lapDataOf rd (row_code r)),
                 row_gap = gapCell rd (at_index (frames rd) i) idx (row_code r)\<rparr>"
  using assms by (auto simp: timingBoard_def Let_def)

text \<open>
  Claim C6 (amended). For a driver with a lap table, the best lap shown in the driver's
  row is the minimum of all lap times of the table that are neither \<open>null\<close> nor \<open>0\<close>,
  whatever the frame index: the laps beyond the current frame's lap number count too.
  Without such a time the cell shows no data.
\<close>

theorem best_lap_is_table_minimum:
  assumes "lapDataOf rd code = Some tbl" and "r \<in> set (timingBoard rd i)" and "row_code r = code"
  shows "row_bestLap r =
           (if recordedTimes tbl = [] then None else Some (Min (set (recordedTimes tbl))))"
proof -
  from timingBoard_row[OF assms(2)] have "row_bestLap r = bestLapTime (lapDataOf rd (row_code r))"
    by (metis timing_row.select_convs(3))
  with assms show ?thesis by (simp add: bestLapTime_Min)
qed

theorem best_lap_is_table_minimum_witness:
  "lapDataOf timing_race ''VER''
     = Some \<lparr>grid_pos = 1, laps = [(5, lapEntry (Some 90)), (6, lapEntry None), (7, lapEntry (Some 85))]\<rparr> \<and>
   timingBoard timing_race 0 ! 0 \<in> set (timingBoard timing_race 0) \<and>
   row_code (timingBoard timing_race 0 ! 0) = ''VER'' \<and>
   row_bestLap (timingBoard timing_race 0 ! 0) = Some 85"
proof -
  let ?tbl = "\<lparr>grid_pos = 1, laps = [(5, lapEntry (Some 90)), (6, lapEntry None), (7, lapEntry (Some 85))]\<rparr>"
  let ?r = "timingBoard timing_race 0 ! 0"
  have h1: "lapDataOf timing_race ''VER'' = Some ?tbl"
    by code_simp
  have len: "length (timingBoard timing_race 0) = 3"
    by code_simp
  have h2: "?r \<in> set (timingBoard timing_race 0)"
    using len by (intro nth_mem) simp
  have h3: "row_code ?r = ''VER''"
    by code_simp
  have ts: "recordedTimes ?tbl = [90, 85]"
    by code_simp
  from best_lap_is_table_minimum[OF h1 h2 h3] h1 h2 h3 ts show ?thesis by simp
qed

text \<open>
  The claim as first stated fails: at lap 6, VER's best lap is shown as 85, the time of
  lap 7, while the minimum over the laps up to lap 6 is 90.
\<close>

theorem best_lap_future_counterexample:
  "lap (frames timing_race ! 0) = 6 \<and>
   map (\<lambda>r. (row_code r, row_bestLap r)) (timingBoard timing_race 0)
     = [(''VER'', Some 85), (''HAM'', Some (92345/1000)), (''NOR'', Some 89)] \<and>
   lapTimeAt timing_race ''VER'' 7 = Some 85 \<and>
   bestLapUpTo \<lparr>grid_pos = 1, laps = [(5, lapEntry (Some 90)), (6, lapEntry None), (7, lapEntry (Some 85))]\<rparr> 6
     = Some 90"
  by code_simp

section \<open>Timing board: gap to the leader\<close>

lemma gapCell_leader: "gapCell rd cf 0 code = Leader"
  by (simp add: gapCell_def)

lemma gapCell_other:
  assumes "0 < idx"
    and "lapTimeAt rd code (currentLapOf cf - 1) = Some a" and "a \<noteq> 0"
    and "leaderCode cf = Some ldr"
    and "lapTimeAt rd ldr (currentLapOf cf - 1) = Some b" and "b \<noteq> 0"
  shows "gapCell rd cf idx code = (if a = b then Dash else PlusSeconds \<bar>a - b\<bar>)"
  using assms by (simp add: gapCell_def gapToLeader_def)

lemma timingBoard_nth:
  assumes "idx < length (sortedDrivers (at_index (frames rd) i))"
  shows "row_gap (timingBoard rd i ! idx)
           = gapCell rd (at_index (frames rd) i) idx (fst (sortedDrivers (at_index (frames rd) i) ! idx))"
  using assms by (simp add: timingBoard_def Let_def nth_enumerate_eq split: prod.splits)

lemma leaderCode_first:
  assumes "idx < length (sortedDrivers cf)"
  shows "leaderCode cf = Some (fst (sortedDrivers cf ! 0))"
  using assms by (cases "sortedDrivers cf") (auto simp: leaderCode_def)

text \<open>
  Claim C7 (amended). The first row of the timing board, the leader's, shows "Leader".
  In any other row, when the driver and the leader (the driver of the first row) both
  have a lap time for lap \<open>lap - 1\<close> that is neither \<open>null\<close> nor \<open>0\<close>, the gap cell shows
  \<open>+\<close> and the absolute value of (driver's time - leader's time), or a dash when the
  two times are equal.
\<close>

theorem gap_cell_is_unsigned_difference:
  assumes "idx < length (sortedDrivers (at_index (frames rd) i))"
  shows "(idx = 0 \<longrightarrow> row_gap (timingBoard rd i ! idx) = Leader) \<and>
         (0 < idx \<and>
          lapTimeAt rd (fst (sortedDrivers (at_index (frames rd) i) ! idx))
            (currentLapOf (at_index (frames rd) i) - 1) = Some a \<and> a \<noteq> 0 \<and>
          lapTimeAt rd (fst (sortedDrivers (at_index (frames rd) i) ! 0))
            (currentLapOf (at_index (frames rd) i) - 1) = Some b \<and> b \<noteq> 0 \<longrightarrow>
          row_gap (timingBoard rd i ! idx) = (if a = b then Dash else PlusSeconds \<bar>a - b\<bar>))"
proof (intro conjI impI)
  assume "idx = 0"
  with timingBoard_nth[OF assms] show "row_gap (timingBoard rd i ! idx) = Leader"
    by (simp add: gapCell_leader)
next
  let ?cf = "at_index (frames rd) i"
  assume h: "0 < idx \<and>
          lapTimeAt rd (fst (sortedDrivers ?cf ! idx)) (currentLapOf ?cf - 1) = Some a \<and> a \<noteq> 0 \<and>
          lapTimeAt rd (fst (sortedDrivers ?cf ! 0)) (currentLapOf ?cf - 1) = Some b \<and> b \<noteq> 0"
  then have p: "0 < idx"
    and ta: "lapTimeAt rd (fst (sortedDrivers ?cf ! idx)) (currentLapOf ?cf - 1) = Some a"
    and a0: "a \<noteq> 0"
    and tb: "lapTimeAt rd (fst (sortedDrivers ?cf ! 0)) (currentLapOf ?cf - 1) = Some b"
    and b0: "b \<noteq> 0"
    by simp_all
  have "gapCell rd ?cf idx (fst (sortedDrivers ?cf ! idx))
          = (if a = b then Dash else PlusSeconds \<bar>a - b\<bar>)"
    by (rule gapCell_other[OF p ta a0 leaderCode_first[OF assms] tb b0])
  with timingBoard_nth[OF assms]
  show "row_gap (timingBoard rd i ! idx) = (if a = b then Dash else PlusSeconds \<bar>a - b\<bar>)"
    by simp
qed

theorem gap_cell_is_unsigned_difference_witness:
  "row_gap (timingBoard timing_race 0 ! 1) = PlusSeconds (2345/1000) \<and>
   row_gap (timingBoard timing_race 0 ! 0) = Leader"
proof -
  let ?cf = "at_index (frames timing_race) 0"
  have i1: "1 < length (sortedDrivers ?cf)" and i0: "0 < length (sortedDrivers ?cf)"
    by code_simp+
  have tv: "lapTimeAt timing_race (fst (sortedDrivers ?cf ! 0)) (currentLapOf ?cf - 1) = Some 90"
    by code_simp
  have th: "lapTimeAt timing_race (fst (sortedDrivers ?cf ! 1)) (currentLapOf ?cf - 1)
              = Some (92345/1000)"
    by code_simp
  have a: "row_gap (timingBoard timing_race 0 ! 1) = PlusSeconds (2345/1000)"
    using gap_cell_is_unsigned_difference[OF i1, of "92345/1000" 90] tv th by simp
  have b: "row_gap (timingBoard timing_race 0 ! 0) = Leader"
    using gap_cell_is_unsigned_difference[OF i0] by simp
  from a b show ?thesis by simp
qed

text \<open>
  The claim as first stated fails: NOR, one second faster than the leader on lap 5
  (89 against 90, a difference of \<open>-1\<close>), is shown as \<open>+1\<close>.
\<close>

theorem gap_sign_counterexample:
  "map (\<lambda>r. (row_code r, row_gap r)) (timingBoard timing_race 0)
     = [(''VER'', Leader), (''HAM'', PlusSeconds (2345/1000)), (''NOR'', PlusSeconds 1)] \<and>
   lapTimeAt timing_race ''NOR'' 5 = Some 89 \<and> lapTimeAt timing_race ''VER'' 5 = Some 90 \<and>
   (89::real) - 90 = - 1"
  by code_simp

section \<open>Team radio: firing and re-arming\<close>




















section \<open>Team radio: fallback timeout\<close>

text \<open>
  Claim C10 (amended). The fallback timeout of a cue clears the announced cue exactly
  when the announced cue has the same timestamp; an announced cue with another
  timestamp, and an empty announcement, are left unchanged.
\<close>

theorem fallback_clears_same_timestamp_only:
  "(fallbackTimeout clipTimestamp prev \<noteq> prev \<longrightarrow>
      (\<exists>c. prev = Some c \<and> t_clip c = clipTimestamp) \<and> fallbackTimeout clipTimestamp prev = None) \<and>
   (t_clip c = clipTimestamp \<longrightarrow> fallbackTimeout clipTimestamp (Some c) = None) \<and>
   (t_clip c \<noteq> clipTimestamp \<longrightarrow> fallbackTimeout clipTimestamp (Some c) = Some c) \<and>
   fallbackTimeout clipTimestamp None = None"
  by (auto simp: fallbackTimeout_def split: option.splits if_splits)

theorem fallback_clears_same_timestamp_only_witness:
  "fallbackTimeout 100 (Some (radio_clip 104 ''NOR'')) = Some (radio_clip 104 ''NOR'') \<and>
   fallbackTimeout 100 (Some (radio_clip 100 ''VER'')) = None"
proof -
  have h1: "t_clip (radio_clip 104 ''NOR'') \<noteq> 100" and h2: "t_clip (radio_clip 100 ''VER'') = 100"
    by (simp_all add: radio_clip_def)
  from fallback_clears_same_timestamp_only[of 100 "Some (radio_clip 104 ''NOR'')" "radio_clip 104 ''NOR''"]
       fallback_clears_same_timestamp_only[of 100 "Some (radio_clip 100 ''VER'')" "radio_clip 100 ''VER''"]
       h1 h2
  show ?thesis by blast
qed

text \<open>
  The claim as first stated fails for two cues with one timestamp: after VER's and then
  HAM's clip have fired, HAM's is announced, and the timeout of VER's clip clears it.
\<close>

theorem fallback_clears_other_cue_counterexample:
  "snd (sweep (Some radio_race) True True [0, 1, 2] initial_radio) = [None, Some 0, Some 1] \<and>
   currentRadio (fst (sweep (Some radio_race) True True [0, 1, 2] initial_radio))
     = Some (radio_clip 100 ''HAM'') \<and>
   radio_clip 100 ''HAM'' \<noteq> radio_clip 100 ''VER'' \<and>
   fallbackTimeout (t_clip (radio_clip 100 ''VER'')) (Some (radio_clip 100 ''HAM'')) = None"
  by code_simp

end
